theory Spec2Isabelle
  imports Main "HOL-Library.AList"
begin

section \<open>The i18n module of src/js/i18n.js\<close>

text \<open>
  A shallow embedding of the module \<open>I18n\<close>: its configuration, the language resolution of
  \<open>init\<close>, \<open>loadTranslations\<close>, the key lookup \<open>t\<close>, \<open>applyTranslations\<close>,
  \<open>updateDocumentAttributes\<close> and \<open>setLanguage\<close>.  JavaScript strings are \<open>string\<close>s whose
  characters stand for the code units below 256.  Exceptions are values of the type \<open>exn\<close>;
  a computation that may throw returns \<open>exn + 'a\<close>, with \<open>Inl\<close> for the exception.
\<close>

subsection \<open>CONFIG\<close>

definition defaultLanguage :: string where
  "defaultLanguage = ''en''"

definition supportedLanguages :: "string list" where
  "supportedLanguages = [''en'', ''ar'']"

definition localStorageKey :: string where
  "localStorageKey = ''zodya-language''"

definition translationsPath :: string where
  "translationsPath = ''./locales/''"

definition rtlLanguages :: "string list" where
  "rtlLanguages = [''ar'']"

subsection \<open>Strings\<close>

text \<open>
  \<open>split_by P s\<close> cuts \<open>s\<close> at every character satisfying \<open>P\<close>, keeping empty pieces, as
  \<open>String.prototype.split\<close> does with a one-character separator: the result is never empty, and
  \<open>''''.split('.')\<close> is \<open>['''']\<close>.
\<close>

fun split_by :: "(char \<Rightarrow> bool) \<Rightarrow> string \<Rightarrow> string list" where
  "split_by P [] = [[]]"
| "split_by P (c # cs) =
     (if P c then [] # split_by P cs
      else (case split_by P cs of
              [] \<Rightarrow> [[c]]
            | w # ws \<Rightarrow> (c # w) # ws))"

definition js_split :: "char \<Rightarrow> string \<Rightarrow> string list" where
  "js_split sep s = split_by (\<lambda>c. c = sep) s"

text \<open>The white space that \<open>String.prototype.trim\<close> removes, among the code units below 256:
  TAB, LF, VT, FF, CR, SPACE and NBSP.\<close>

definition js_space :: "char \<Rightarrow> bool" where
  "js_space c = ((of_char c :: nat) \<in> {9, 10, 11, 12, 13, 32, 160})"

definition trim :: "string \<Rightarrow> string" where
  "trim s = rev (dropWhile js_space (rev (dropWhile js_space s)))"

text \<open>\<open>String.prototype.toLowerCase\<close> on the code units below 256: A to Z, and the Latin-1
  capitals U+00C0 to U+00DE without the multiplication sign U+00D7.\<close>

definition lower_char :: "char \<Rightarrow> char" where
  "lower_char c =
     (let n = (of_char c :: nat)
      in if (65 \<le> n \<and> n \<le> 90) \<or> (192 \<le> n \<and> n \<le> 222 \<and> n \<noteq> 215)
         then char_of (n + 32) else c)"

definition toLowerCase :: "string \<Rightarrow> string" where
  "toLowerCase s = map lower_char s"

subsection \<open>Values, exceptions, the DOM tree and the host\<close>

text \<open>
  The values the module handles: what \<open>response.json()\<close> can deliver (null, booleans, numbers,
  strings, arrays, objects), \<open>undefined\<close>, and the built-in function objects that a lookup can
  reach through a prototype (\<open>JFun\<close>, named).  A number is kept as an integer: the module only
  tests numbers for being zero and passes them on.  An object is the list of its own
  properties; a lookup takes the first entry of a key.
\<close>

datatype jsval =
    JUndefined
  | JNull
  | JBool bool
  | JNum int
  | JStr string
  | JArr "jsval list"
  | JObj "(string \<times> jsval) list"
  | JFun string

datatype exn =
    TypeError
  | SecurityError
  | NetworkError
  | HttpError string
  | SyntaxError
  | InvalidCharacterError

text \<open>A DOM node is a text node or an element with its local name, its attribute list (one
  entry per name, in order) and its children.\<close>

datatype node =
    Text string
  | Elem string "(string \<times> string) list" "node list"

text \<open>
  What the browser supplies and the module does not define:
  \<^item> \<open>inherited v k\<close>: the value of property \<open>k\<close> that \<open>v\<close> finds on its prototype chain
    (\<open>Object.prototype\<close>, \<open>Array.prototype\<close>, ...) when \<open>k\<close> is not an own property; for a
    string, a number or a boolean, the value of \<open>k\<close> on its wrapper object;
  \<^item> \<open>parseFragment tag markup\<close>: the nodes the HTML parser makes of \<open>markup\<close> inside an element
    \<open>tag\<close>, for the \<open>innerHTML\<close> setter;
  \<^item> \<open>attributeName n\<close>: the name under which \<open>setAttribute(n, _)\<close> stores an attribute (lower
    case in an HTML document), \<open>None\<close> when it throws \<open>InvalidCharacterError\<close>;
  \<^item> \<open>toDOMString v\<close>: the conversion of a value that is not a string to a string, which can
    throw.
\<close>

record host =
  inherited :: "jsval \<Rightarrow> string \<Rightarrow> jsval option"
  parseFragment :: "string \<Rightarrow> string \<Rightarrow> node list"
  attributeName :: "string \<Rightarrow> string option"
  toDOMString :: "jsval \<Rightarrow> exn + string"

fun truthy :: "jsval \<Rightarrow> bool" where
  "truthy JUndefined = False"
| "truthy JNull = False"
| "truthy (JBool b) = b"
| "truthy (JNum n) = (n \<noteq> 0)"
| "truthy (JStr s) = (s \<noteq> [])"
| "truthy (JArr xs) = True"
| "truthy (JObj ps) = True"
| "truthy (JFun f) = True"

fun typeof :: "jsval \<Rightarrow> string" where
  "typeof JUndefined = ''undefined''"
| "typeof JNull = ''object''"
| "typeof (JBool b) = ''boolean''"
| "typeof (JNum n) = ''number''"
| "typeof (JStr s) = ''string''"
| "typeof (JArr xs) = ''object''"
| "typeof (JObj ps) = ''object''"
| "typeof (JFun f) = ''function''"

text \<open>An array has the own properties \<open>length\<close> and its indices, written in decimal without
  leading zeros.\<close>

definition is_digit :: "char \<Rightarrow> bool" where
  "is_digit c = (48 \<le> (of_char c :: nat) \<and> (of_char c :: nat) \<le> 57)"

definition array_index :: "string \<Rightarrow> nat option" where
  "array_index key =
     (if key = [] then None
      else if \<not> list_all is_digit key then None
      else if hd key = CHR ''0'' \<and> key \<noteq> ''0'' then None
      else Some (foldl (\<lambda>n c. 10 * n + ((of_char c :: nat) - 48)) 0 key))"

fun own_property :: "jsval \<Rightarrow> string \<Rightarrow> jsval option" where
  "own_property (JObj ps) key = map_of ps key"
| "own_property (JArr xs) key =
     (if key = ''length'' then Some (JNum (int (length xs)))
      else (case array_index key of
              None \<Rightarrow> None
            | Some i \<Rightarrow> if i < length xs then Some (xs ! i) else None))"
| "own_property v key = None"

fun is_object :: "jsval \<Rightarrow> bool" where
  "is_object (JObj ps) = True"
| "is_object (JArr xs) = True"
| "is_object (JFun f) = True"
| "is_object v = False"

text \<open>\<open>key in value\<close>: a \<open>TypeError\<close> unless \<open>value\<close> is an object; own and inherited
  properties count.\<close>

definition js_in :: "host \<Rightarrow> string \<Rightarrow> jsval \<Rightarrow> exn + bool" where
  "js_in h key v =
     (if is_object v
      then Inr (own_property v key \<noteq> None \<or> inherited h v key \<noteq> None)
      else Inl TypeError)"

text \<open>\<open>value[key]\<close>: a \<open>TypeError\<close> on \<open>null\<close> and \<open>undefined\<close>, \<open>undefined\<close> for a property
  that is nowhere on the chain.\<close>

definition js_get :: "host \<Rightarrow> jsval \<Rightarrow> string \<Rightarrow> exn + jsval" where
  "js_get h v key =
     (if v = JNull \<or> v = JUndefined then Inl TypeError
      else Inr (case own_property v key of
                  Some x \<Rightarrow> x
                | None \<Rightarrow> (case inherited h v key of Some x \<Rightarrow> x | None \<Rightarrow> JUndefined)))"

subsection \<open>The key lookup \<open>t\<close>\<close>

text \<open>
  The loop of \<open>t\<close> over the keys.  \<open>Missing\<close> is the early \<open>return keyPath\<close> (with its
  \<open>console.warn\<close>), \<open>Found v\<close> the \<open>return value\<close> after the loop.
\<close>

datatype lookup = Found jsval | Missing

fun t_loop :: "host \<Rightarrow> jsval \<Rightarrow> string list \<Rightarrow> exn + lookup" where
  "t_loop h val [] = Inr (Found val)"
| "t_loop h val (key # keys) =
     (if truthy val \<and> typeof val = ''object'' then
        (case js_in h key val of
           Inl e \<Rightarrow> Inl e
         | Inr present \<Rightarrow>
             if present then
               (case js_get h val key of
                  Inl e \<Rightarrow> Inl e
                | Inr v \<Rightarrow> t_loop h v keys)
             else Inr Missing)
      else Inr Missing)"

definition t :: "host \<Rightarrow> jsval \<Rightarrow> string \<Rightarrow> exn + jsval" where
  "t h translations keyPath =
     (case t_loop h translations (js_split CHR ''.'' keyPath) of
        Inl e \<Rightarrow> Inl e
      | Inr Missing \<Rightarrow> Inr (JStr keyPath)
      | Inr (Found v) \<Rightarrow> Inr v)"

text \<open>The lines \<open>t\<close> writes with \<open>console.warn\<close>.\<close>

definition t_warnings :: "host \<Rightarrow> jsval \<Rightarrow> string \<Rightarrow> string list" where
  "t_warnings h translations keyPath =
     (if t_loop h translations (js_split CHR ''.'' keyPath) = Inr Missing
      then [''Translation missing: '' @ keyPath] else [])"

text \<open>
  The value a path addresses, in the words of the specification: walk the tree segment by
  segment; a value that is not a keyed container, or that lacks the segment, addresses
  nothing.
\<close>

definition keyed_container :: "jsval \<Rightarrow> bool" where
  "keyed_container v = (case v of JObj ps \<Rightarrow> True | JArr xs \<Rightarrow> True | _ \<Rightarrow> False)"

definition has_segment :: "host \<Rightarrow> jsval \<Rightarrow> string \<Rightarrow> bool" where
  "has_segment h v k = (own_property v k \<noteq> None \<or> inherited h v k \<noteq> None)"

definition segment_value :: "host \<Rightarrow> jsval \<Rightarrow> string \<Rightarrow> jsval" where
  "segment_value h v k =
     (case own_property v k of
        Some x \<Rightarrow> x
      | None \<Rightarrow> (case inherited h v k of Some x \<Rightarrow> x | None \<Rightarrow> JUndefined))"

fun addressed :: "host \<Rightarrow> jsval \<Rightarrow> string list \<Rightarrow> jsval option" where
  "addressed h v [] = Some v"
| "addressed h v (k # ks) =
     (if keyed_container v \<and> has_segment h v k
      then addressed h (segment_value h v k) ks
      else None)"

subsection \<open>The state of the module and of the page\<close>

text \<open>
  \<open>localStorage\<close>: its entries, and whether reading and writing work.  Where storage is
  disabled every access throws a \<open>SecurityError\<close>; where the quota is used up only writing
  throws.
\<close>

record storage =
  readable :: bool
  writable :: bool
  items :: "(string \<times> string) list"

definition getItem :: "storage \<Rightarrow> string \<Rightarrow> exn + string option" where
  "getItem sto key = (if readable sto then Inr (map_of (items sto) key) else Inl SecurityError)"

definition setItem :: "storage \<Rightarrow> string \<Rightarrow> string \<Rightarrow> exn + storage" where
  "setItem sto key v =
     (if writable sto then Inr (sto\<lparr>items := AList.update key v (items sto)\<rparr>)
      else Inl SecurityError)"

text \<open>The document: its root element with the whole tree, and \<open>document.title\<close>, kept as a
  field of its own.\<close>

record document =
  documentElement :: node
  title :: string

datatype console_line = ConsoleLog string | ConsoleWarn string | ConsoleError string

text \<open>
  The three variables of the module (\<open>currentLanguage\<close>, \<open>translations\<close> as \<open>translations'\<close>,
  \<open>isInitialized\<close>) and
  what the module reads and writes outside itself: the storage, the document, the console,
  the URLs passed to \<open>fetch\<close> and the events dispatched on the document (type and
  \<open>detail.language\<close>).
\<close>

record state =
  currentLanguage :: string
  translations' :: jsval
  isInitialized :: bool
  storage :: storage
  doc :: document
  console :: "console_line list"
  requests :: "string list"
  dispatched :: "(string \<times> string) list"

text \<open>What \<open>init\<close> reads of the page's address and of \<open>navigator\<close>: the pairs of the query
  string, \<open>navigator.language\<close>, \<open>navigator.userLanguage\<close> and \<open>navigator.languages\<close>
  (\<open>None\<close> where the browser has no such property).\<close>

record environment =
  query :: "(string \<times> string) list"
  navigatorLanguage :: "string option"
  navigatorUserLanguage :: "string option"
  navigatorLanguages :: "string list option"

text \<open>\<open>fetch(url)\<close> rejects, or resolves with a response: its \<open>ok\<close> flag and what
  \<open>response.json()\<close> gives (\<open>None\<close>: it rejects with a \<open>SyntaxError\<close>).\<close>

datatype response = Rejected | Response bool "jsval option"

type_synonym network = "string \<Rightarrow> response"

definition initial_state :: "storage \<Rightarrow> document \<Rightarrow> state" where
  "initial_state sto d =
     \<lparr>currentLanguage = defaultLanguage, translations' = JObj [], isInitialized = False,
      storage = sto, doc = d, console = [], requests = [], dispatched = []\<rparr>"

definition and_then ::
  "(exn + unit) \<times> state \<Rightarrow> (state \<Rightarrow> (exn + unit) \<times> state) \<Rightarrow> (exn + unit) \<times> state" where
  "and_then r f = (case r of (Inl e, st) \<Rightarrow> (Inl e, st) | (Inr u, st) \<Rightarrow> f st)"

subsection \<open>Language resolution\<close>

definition getUrlLanguage :: "environment \<Rightarrow> string option" where
  "getUrlLanguage env =
     (case map_of (query env) ''lang'' of
        None \<Rightarrow> None
      | Some lang \<Rightarrow>
          if lang \<noteq> [] \<and> lang \<in> set supportedLanguages then Some lang else None)"

text \<open>The \<open>try\<close> block either returns the stored code, falls through, or throws; the \<open>catch\<close>
  writes a warning, and the function then returns \<open>null\<close>.\<close>

definition getStoredLanguage :: "state \<Rightarrow> string option \<times> state" where
  "getStoredLanguage st =
     (case getItem (storage st) localStorageKey of
        Inr (Some stored) \<Rightarrow>
          if stored \<noteq> [] \<and> stored \<in> set supportedLanguages then (Some stored, st)
          else (None, st)
      | Inr None \<Rightarrow> (None, st)
      | Inl e \<Rightarrow>
          (None, st\<lparr>console := console st @ [ConsoleWarn ''localStorage not available:'']\<rparr>))"

text \<open>\<open>a || b\<close> on values that are a string or absent: \<open>a\<close> when it is a string that is not
  empty.\<close>

definition js_or :: "string option \<Rightarrow> string option \<Rightarrow> string option" where
  "js_or a b = (case a of Some s \<Rightarrow> if s \<noteq> [] then Some s else b | None \<Rightarrow> b)"

definition subtag :: "string \<Rightarrow> string" where
  "subtag lang = toLowerCase (hd (js_split CHR ''-'' lang))"

fun first_supported_subtag :: "string list \<Rightarrow> string option" where
  "first_supported_subtag [] = None"
| "first_supported_subtag (lang # langs) =
     (if subtag lang \<in> set supportedLanguages then Some (subtag lang)
      else first_supported_subtag langs)"

definition detectBrowserLanguage :: "environment \<Rightarrow> string option" where
  "detectBrowserLanguage env =
     (let browserLang = js_or (navigatorLanguage env) (navigatorUserLanguage env);
          exact = (case browserLang of
                     Some b \<Rightarrow>
                       if b \<noteq> [] \<and> subtag b \<in> set supportedLanguages then Some (subtag b)
                       else None
                   | None \<Rightarrow> None)
      in case exact of
           Some code \<Rightarrow> Some code
         | None \<Rightarrow>
             (case navigatorLanguages env of
                Some langs \<Rightarrow> first_supported_subtag langs
              | None \<Rightarrow> None))"

text \<open>The chain \<open>getUrlLanguage() || getStoredLanguage() || detectBrowserLanguage() ||
  CONFIG.defaultLanguage\<close> of \<open>init\<close>: a later source is only asked when the earlier ones gave
  nothing.\<close>

definition resolveLanguage :: "environment \<Rightarrow> state \<Rightarrow> string \<times> state" where
  "resolveLanguage env st =
     (case js_or (getUrlLanguage env) None of
        Some code \<Rightarrow> (code, st)
      | None \<Rightarrow>
          (case getStoredLanguage st of
             (stored, st1) \<Rightarrow>
               (case js_or stored None of
                  Some code \<Rightarrow> (code, st1)
                | None \<Rightarrow>
                    (case js_or (detectBrowserLanguage env) None of
                       Some code \<Rightarrow> (code, st1)
                     | None \<Rightarrow> (defaultLanguage, st1)))))"

text \<open>
  The specification's reading: the codes the sources offer, in priority order (the query
  parameter, the stored preference when the storage can be read, the language subtag of the
  primary locale, the subtags of the ordered preference list); the first supported one is
  chosen.
\<close>

definition offered :: "environment \<Rightarrow> storage \<Rightarrow> string list" where
  "offered env sto =
     (case map_of (query env) ''lang'' of None \<Rightarrow> [] | Some lang \<Rightarrow> [lang])
     @ (if readable sto
        then (case map_of (items sto) localStorageKey of None \<Rightarrow> [] | Some stored \<Rightarrow> [stored])
        else [])
     @ (case js_or (navigatorLanguage env) (navigatorUserLanguage env) of
          None \<Rightarrow> [] | Some b \<Rightarrow> [subtag b])
     @ (case navigatorLanguages env of None \<Rightarrow> [] | Some langs \<Rightarrow> map subtag langs)"

definition supported :: "string \<Rightarrow> bool" where
  "supported code = (code \<in> set supportedLanguages)"

subsection \<open>Loading a dataset\<close>

definition translations_url :: "string \<Rightarrow> string" where
  "translations_url lang = ''./locales/'' @ lang @ ''.json''"

text \<open>The \<open>try\<close> block of \<open>loadTranslations\<close>: the request is made, then the block throws or
  assigns \<open>translations\<close>.\<close>

definition try_load :: "network \<Rightarrow> string \<Rightarrow> state \<Rightarrow> (exn + unit) \<times> state" where
  "try_load net lang st =
     (let st1 = st\<lparr>requests := requests st @ [translations_url lang]\<rparr>
      in case net (translations_url lang) of
           Rejected \<Rightarrow> (Inl NetworkError, st1)
         | Response ok body \<Rightarrow>
             if \<not> ok then (Inl (HttpError (''Failed to load '' @ lang @ ''.json'')), st1)
             else (case body of
                     None \<Rightarrow> (Inl SyntaxError, st1)
                   | Some v \<Rightarrow> (Inr (), st1\<lparr>translations' := v\<rparr>)))"

function loadTranslations :: "network \<Rightarrow> string \<Rightarrow> state \<Rightarrow> (exn + unit) \<times> state" where
  "loadTranslations net lang st =
     (case try_load net lang st of
        (Inr u, st1) \<Rightarrow> (Inr (), st1)
      | (Inl error, st1) \<Rightarrow>
          (let st2 = st1\<lparr>console := console st1 @ [ConsoleError ''Failed to load translations:'']\<rparr>
           in if lang \<noteq> defaultLanguage then loadTranslations net defaultLanguage st2
              else (Inr (), st2)))"
  by pat_completeness auto
termination
  by (relation "measure (\<lambda>(net, lang, st). if lang \<noteq> defaultLanguage then 1 else 0)") auto

declare loadTranslations.simps [simp del]

text \<open>A request fails when \<open>fetch\<close> rejects, the status is not a success, or the body does not
  parse.\<close>

definition fetch_fails :: "network \<Rightarrow> string \<Rightarrow> bool" where
  "fetch_fails net lang =
     (case net (translations_url lang) of
        Rejected \<Rightarrow> True
      | Response ok body \<Rightarrow> \<not> ok \<or> body = None)"

subsection \<open>The document\<close>

type_synonym attrs = "(string \<times> string) list"

text \<open>
  \<open>visit f s n\<close> calls \<open>f\<close> on every element of the tree \<open>n\<close> in document order, as
  \<open>querySelectorAll(...).forEach\<close> and \<open>querySelector\<close> go through it, handing the value \<open>s\<close>
  from one element to the next; \<open>f\<close> sees the element's name and attributes and gives the
  new attributes.
\<close>

fun visit :: "('s \<Rightarrow> string \<Rightarrow> attrs \<Rightarrow> attrs \<times> 's) \<Rightarrow> 's \<Rightarrow> node \<Rightarrow> node \<times> 's"
  and visit_list :: "('s \<Rightarrow> string \<Rightarrow> attrs \<Rightarrow> attrs \<times> 's) \<Rightarrow> 's \<Rightarrow> node list \<Rightarrow> node list \<times> 's" where
  "visit f s (Text x) = (Text x, s)"
| "visit f s (Elem tag attrs kids) =
     (case f s tag attrs of
        (attrs', s1) \<Rightarrow>
          (case visit_list f s1 kids of
             (kids', s2) \<Rightarrow> (Elem tag attrs' kids', s2)))"
| "visit_list f s [] = ([], s)"
| "visit_list f s (n # ns) =
     (case visit f s n of
        (n', s1) \<Rightarrow>
          (case visit_list f s1 ns of
             (ns', s2) \<Rightarrow> (n' # ns', s2)))"

text \<open>
  The children an element gets from a translation that is a string: \<open>innerHTML\<close> when it
  contains \<open><\<close>, \<open>textContent\<close> otherwise (no child at all for the empty string).
\<close>

definition new_children :: "host \<Rightarrow> string \<Rightarrow> string \<Rightarrow> node list" where
  "new_children h tag s =
     (if CHR ''<'' \<in> set s then parseFragment h tag s
      else if s = [] then [] else [Text s])"

text \<open>
  The first loop of \<open>applyTranslations\<close>, over the elements with \<open>data-i18n\<close>.  The list of
  elements is fixed before the loop and is in document order, so an element is reached
  before its descendants; once its content is replaced the former descendants are out of
  the document, and what the loop does to them later changes nothing in it.  The lookup
  does not throw on a string (lemma \<open>t_returns\<close>), so the branch \<open>Inl\<close> is never taken.
\<close>

fun translate_content :: "host \<Rightarrow> jsval \<Rightarrow> node \<Rightarrow> node" where
  "translate_content h T (Text x) = Text x"
| "translate_content h T (Elem tag attrs kids) =
     (case map_of attrs ''data-i18n'' of
        None \<Rightarrow> Elem tag attrs (map (translate_content h T) kids)
      | Some key \<Rightarrow>
          (case t h T key of
             Inl e \<Rightarrow> Elem tag attrs (map (translate_content h T) kids)
           | Inr v \<Rightarrow>
               (case v of
                  JStr s \<Rightarrow> Elem tag attrs (new_children h tag s)
                | _ \<Rightarrow> Elem tag attrs (map (translate_content h T) kids))))"

text \<open>The keys that loop looks up: the \<open>data-i18n\<close> values of all elements, in document
  order.\<close>

fun content_keys :: "node \<Rightarrow> string list" where
  "content_keys (Text x) = []"
| "content_keys (Elem tag attrs kids) =
     (case map_of attrs ''data-i18n'' of None \<Rightarrow> [] | Some key \<Rightarrow> [key])
     @ concat (map content_keys kids)"

text \<open>
  One pair \<open>attr:key\<close> of a \<open>data-i18n-attr\<close> list.  Without a colon \<open>key\<close> is \<open>undefined\<close> and
  \<open>t(key)\<close> throws a \<open>TypeError\<close> at \<open>keyPath.split\<close>; pieces after the second are dropped.
\<close>

datatype action = NoChange | SetAttribute string string | Throws exn

definition pair_action :: "host \<Rightarrow> jsval \<Rightarrow> string \<Rightarrow> action \<times> string list" where
  "pair_action h T pair =
     (case map trim (js_split CHR '':'' pair) of
        attr # key # rest \<Rightarrow>
          (case t h T key of
             Inl e \<Rightarrow> (Throws e, [])
           | Inr v \<Rightarrow>
               (case v of
                  JStr s \<Rightarrow>
                    (case attributeName h attr of
                       None \<Rightarrow> (Throws InvalidCharacterError, t_warnings h T key)
                     | Some n \<Rightarrow> (SetAttribute n s, t_warnings h T key))
                | _ \<Rightarrow> (NoChange, t_warnings h T key)))
      | _ \<Rightarrow> (Throws TypeError, []))"

fun apply_pairs ::
  "host \<Rightarrow> jsval \<Rightarrow> string list \<Rightarrow> attrs \<Rightarrow> string list \<Rightarrow> attrs \<times> exn option \<times> string list" where
  "apply_pairs h T [] attrs ws = (attrs, None, ws)"
| "apply_pairs h T (pair # pairs) attrs ws =
     (case pair_action h T pair of
        (Throws e, w) \<Rightarrow> (attrs, Some e, ws @ w)
      | (NoChange, w) \<Rightarrow> apply_pairs h T pairs attrs (ws @ w)
      | (SetAttribute n s, w) \<Rightarrow> apply_pairs h T pairs (AList.update n s attrs) (ws @ w))"

text \<open>
  The second loop, over the elements with \<open>data-i18n-attr\<close>, as a visit: the value handed on
  is the exception thrown so far, if any (it ends the loop and \<open>applyTranslations\<close>), and the
  warnings written.
\<close>

definition attr_step ::
  "host \<Rightarrow> jsval \<Rightarrow> exn option \<times> string list \<Rightarrow> string \<Rightarrow> attrs
     \<Rightarrow> attrs \<times> (exn option \<times> string list)" where
  "attr_step h T s tag attrs =
     (case s of
        (Some e, ws) \<Rightarrow> (attrs, s)
      | (None, ws) \<Rightarrow>
          (case map_of attrs ''data-i18n-attr'' of
             None \<Rightarrow> (attrs, s)
           | Some attrData \<Rightarrow>
               (case apply_pairs h T (js_split CHR '','' attrData) attrs ws of
                  (attrs', thrown, ws') \<Rightarrow> (attrs', (thrown, ws')))))"

text \<open>\<open>translations.meta && translations.meta.field\<close>.\<close>

definition meta_field :: "host \<Rightarrow> jsval \<Rightarrow> string \<Rightarrow> exn + jsval" where
  "meta_field h T field =
     (case js_get h T ''meta'' of
        Inl e \<Rightarrow> Inl e
      | Inr m \<Rightarrow> if truthy m then js_get h m field else Inr m)"

definition to_string :: "host \<Rightarrow> jsval \<Rightarrow> exn + string" where
  "to_string h v = (case v of JStr s \<Rightarrow> Inr s | _ \<Rightarrow> toDOMString h v)"

definition set_title :: "host \<Rightarrow> jsval \<Rightarrow> document \<Rightarrow> (exn + unit) \<times> document" where
  "set_title h T d =
     (case meta_field h T ''title'' of
        Inl e \<Rightarrow> (Inl e, d)
      | Inr v \<Rightarrow>
          if truthy v then
            (case to_string h v of
               Inl e \<Rightarrow> (Inl e, d)
             | Inr s \<Rightarrow> (Inr (), d\<lparr>title := s\<rparr>))
          else (Inr (), d))"

text \<open>\<open>document.querySelector('meta[name="description"]')\<close> and the \<open>setAttribute\<close> on it, as
  a visit that changes the first match; the value handed on says whether it was found.\<close>

definition description_step :: "string \<Rightarrow> bool \<Rightarrow> string \<Rightarrow> attrs \<Rightarrow> attrs \<times> bool" where
  "description_step s found tag attrs =
     (if \<not> found \<and> tag = ''meta'' \<and> map_of attrs ''name'' = Some ''description''
      then (AList.update ''content'' s attrs, True)
      else (attrs, found))"

definition has_description :: "node \<Rightarrow> bool" where
  "has_description root = snd (visit (description_step []) False root)"

definition set_description :: "host \<Rightarrow> jsval \<Rightarrow> document \<Rightarrow> (exn + unit) \<times> document" where
  "set_description h T d =
     (if \<not> has_description (documentElement d) then (Inr (), d)
      else
        (case meta_field h T ''description'' of
           Inl e \<Rightarrow> (Inl e, d)
         | Inr v \<Rightarrow>
             if truthy v then
               (case to_string h v of
                  Inl e \<Rightarrow> (Inl e, d)
                | Inr s \<Rightarrow>
                    (Inr (),
                     d\<lparr>documentElement := fst (visit (description_step s) False (documentElement d))\<rparr>))
             else (Inr (), d)))"

text \<open>\<open>applyTranslations\<close> on the document: the result (an exception ends it where it is
  thrown), the document and the warnings of the lookups.\<close>

definition render :: "host \<Rightarrow> jsval \<Rightarrow> document \<Rightarrow> (exn + unit) \<times> document \<times> string list" where
  "render h T d =
     (let ws1 = concat (map (t_warnings h T) (content_keys (documentElement d)));
          root1 = translate_content h T (documentElement d)
      in case visit (attr_step h T) (None, ws1) root1 of
           (root2, thrown, ws2) \<Rightarrow>
             (let d2 = d\<lparr>documentElement := root2\<rparr>
              in case thrown of
                   Some e \<Rightarrow> (Inl e, d2, ws2)
                 | None \<Rightarrow>
                     (case set_title h T d2 of
                        (Inl e, d3) \<Rightarrow> (Inl e, d3, ws2)
                      | (Inr u, d3) \<Rightarrow>
                          (case set_description h T d3 of
                             (r, d4) \<Rightarrow> (r, d4, ws2)))))"

definition applyTranslations :: "host \<Rightarrow> state \<Rightarrow> (exn + unit) \<times> state" where
  "applyTranslations h st =
     (case render h (translations' st) (doc st) of
        (r, d, ws) \<Rightarrow> (r, st\<lparr>doc := d, console := console st @ map ConsoleWarn ws\<rparr>))"

subsection \<open>Direction and language attributes\<close>

text \<open>\<open>classList\<close>: the tokens of the \<open>class\<close> attribute, cut at ASCII white space, each once, in
  order; a change writes them back joined by single spaces.\<close>

definition ascii_space :: "char \<Rightarrow> bool" where
  "ascii_space c = ((of_char c :: nat) \<in> {9, 10, 12, 13, 32})"

definition class_tokens :: "attrs \<Rightarrow> string list" where
  "class_tokens attrs =
     (case map_of attrs ''class'' of
        None \<Rightarrow> []
      | Some v \<Rightarrow> rev (remdups (rev (filter (\<lambda>w. w \<noteq> []) (split_by ascii_space v)))))"

fun serialize :: "string list \<Rightarrow> string" where
  "serialize [] = []"
| "serialize [w] = w"
| "serialize (w # ws) = w @ CHR '' '' # serialize ws"


definition classList_toggle :: "string \<Rightarrow> bool \<Rightarrow> attrs \<Rightarrow> attrs" where
  "classList_toggle token force attrs =
     (if token \<in> set (class_tokens attrs) then
        (if force then attrs
         else AList.update ''class'' (serialize (removeAll token (class_tokens attrs))) attrs)
      else
        (if force then AList.update ''class'' (serialize (class_tokens attrs @ [token])) attrs
         else attrs))"

definition classList_add :: "string \<Rightarrow> attrs \<Rightarrow> attrs" where
  "classList_add token attrs =
     AList.update ''class''
       (serialize (if token \<in> set (class_tokens attrs) then class_tokens attrs
                   else class_tokens attrs @ [token])) attrs"

text \<open>\<open>document.body\<close> is the first child of the root that is a \<open>body\<close> or \<open>frameset\<close> element,
  when the root is an \<open>html\<close> element; \<open>on_body f kids\<close> changes its attributes, and is \<open>None\<close>
  when there is no such child.\<close>

fun on_body :: "(attrs \<Rightarrow> attrs) \<Rightarrow> node list \<Rightarrow> node list option" where
  "on_body f [] = None"
| "on_body f (Text x # ns) = map_option (\<lambda>r. Text x # r) (on_body f ns)"
| "on_body f (Elem tag attrs kids # ns) =
     (if tag = ''body'' \<or> tag = ''frameset'' then Some (Elem tag (f attrs) kids # ns)
      else map_option (\<lambda>r. Elem tag attrs kids # r) (on_body f ns))"

definition with_body :: "(attrs \<Rightarrow> attrs) \<Rightarrow> document \<Rightarrow> exn + document" where
  "with_body f d =
     (case documentElement d of
        Text x \<Rightarrow> Inl TypeError
      | Elem tag attrs kids \<Rightarrow>
          if tag \<noteq> ''html'' then Inl TypeError
          else (case on_body f kids of
                  None \<Rightarrow> Inl TypeError
                | Some kids' \<Rightarrow> Inr (d\<lparr>documentElement := Elem tag attrs kids'\<rparr>)))"

text \<open>A document without a root element is one whose \<open>documentElement\<close> is a text node:
  \<open>document.documentElement\<close> is \<open>null\<close> there and \<open>setAttribute\<close> on it throws.\<close>

definition set_root_attribute :: "string \<Rightarrow> string \<Rightarrow> document \<Rightarrow> exn + document" where
  "set_root_attribute name v d =
     (case documentElement d of
        Text x \<Rightarrow> Inl TypeError
      | Elem tag attrs kids \<Rightarrow> Inr (d\<lparr>documentElement := Elem tag (AList.update name v attrs) kids\<rparr>))"

definition isRTL :: "state \<Rightarrow> bool" where
  "isRTL st = (currentLanguage st \<in> set rtlLanguages)"

definition getCurrentLanguage :: "state \<Rightarrow> string" where
  "getCurrentLanguage st = currentLanguage st"

definition updateDocumentAttributes :: "state \<Rightarrow> (exn + unit) \<times> state" where
  "updateDocumentAttributes st =
     (case set_root_attribute ''lang'' (currentLanguage st) (doc st) of
        Inl e \<Rightarrow> (Inl e, st)
      | Inr d1 \<Rightarrow>
          (case set_root_attribute ''dir'' (if isRTL st then ''rtl'' else ''ltr'') d1 of
             Inl e \<Rightarrow> (Inl e, st\<lparr>doc := d1\<rparr>)
           | Inr d2 \<Rightarrow>
               (case with_body (classList_toggle ''rtl'' (isRTL st)) d2 of
                  Inl e \<Rightarrow> (Inl e, st\<lparr>doc := d2\<rparr>)
                | Inr d3 \<Rightarrow>
                    (case with_body (classList_toggle ''ltr'' (\<not> isRTL st)) d3 of
                       Inl e \<Rightarrow> (Inl e, st\<lparr>doc := d3\<rparr>)
                     | Inr d4 \<Rightarrow> (Inr (), st\<lparr>doc := d4\<rparr>)))))"

subsection \<open>The language selector\<close>

text \<open>The buttons: every element with \<open>data-lang\<close> below the selector.\<close>

fun mark_buttons :: "string \<Rightarrow> node \<Rightarrow> node" where
  "mark_buttons cur (Text x) = Text x"
| "mark_buttons cur (Elem tag attrs kids) =
     Elem tag
       (case map_of attrs ''data-lang'' of
          None \<Rightarrow> attrs
        | Some l \<Rightarrow>
            AList.update ''aria-current'' (if l = cur then ''true'' else ''false'')
              (classList_toggle ''active'' (l = cur) attrs))
       (map (mark_buttons cur) kids)"

text \<open>\<open>document.getElementById('language-selector')\<close> is the first element in document order
  with that \<open>id\<close>; the flag says whether it has been found.\<close>

fun selector_ui :: "string \<Rightarrow> bool \<Rightarrow> node \<Rightarrow> node \<times> bool"
  and selector_ui_list :: "string \<Rightarrow> bool \<Rightarrow> node list \<Rightarrow> node list \<times> bool" where
  "selector_ui cur found (Text x) = (Text x, found)"
| "selector_ui cur found (Elem tag attrs kids) =
     (if found then (Elem tag attrs kids, True)
      else if map_of attrs ''id'' = Some ''language-selector''
      then (Elem tag attrs (map (mark_buttons cur) kids), True)
      else (case selector_ui_list cur False kids of
              (kids', found') \<Rightarrow> (Elem tag attrs kids', found')))"
| "selector_ui_list cur found [] = ([], found)"
| "selector_ui_list cur found (n # ns) =
     (case selector_ui cur found n of
        (n', found1) \<Rightarrow>
          (case selector_ui_list cur found1 ns of
             (ns', found2) \<Rightarrow> (n' # ns', found2)))"

definition updateLanguageSelectorUI :: "state \<Rightarrow> (exn + unit) \<times> state" where
  "updateLanguageSelectorUI st =
     (Inr (),
      st\<lparr>doc := (doc st)\<lparr>documentElement :=
            fst (selector_ui (currentLanguage st) False (documentElement (doc st)))\<rparr>\<rparr>)"

text \<open>\<open>setupLanguageSelector\<close> also registers the click handlers, which call \<open>setLanguage\<close>
  with the button's \<open>data-lang\<close>; registering changes nothing that is modelled.\<close>

definition setupLanguageSelector :: "state \<Rightarrow> (exn + unit) \<times> state" where
  "setupLanguageSelector st = updateLanguageSelectorUI st"

subsection \<open>\<open>setLanguage\<close> and \<open>init\<close>\<close>

definition store_preference :: "string \<Rightarrow> state \<Rightarrow> state" where
  "store_preference lang st =
     (case setItem (storage st) localStorageKey lang of
        Inr sto \<Rightarrow> st\<lparr>storage := sto\<rparr>
      | Inl e \<Rightarrow> st\<lparr>console := console st @ [ConsoleWarn ''Could not save language preference:'']\<rparr>)"

definition setLanguage :: "host \<Rightarrow> network \<Rightarrow> string \<Rightarrow> state \<Rightarrow> (exn + unit) \<times> state" where
  "setLanguage h net lang st =
     (if lang \<notin> set supportedLanguages then
        (Inr (), st\<lparr>console := console st @ [ConsoleError (''Unsupported language: '' @ lang)]\<rparr>)
      else if lang = currentLanguage st then (Inr (), st)
      else
        and_then (loadTranslations net lang (store_preference lang (st\<lparr>currentLanguage := lang\<rparr>)))
          (\<lambda>st3. and_then (applyTranslations h st3)
          (\<lambda>st4. and_then (updateDocumentAttributes st4)
          (\<lambda>st5. and_then (updateLanguageSelectorUI st5)
          (\<lambda>st6. (Inr (),
             st6\<lparr>dispatched := dispatched st6 @ [(''i18n:languageChanged'', lang)],
                 console := console st6 @ [ConsoleLog (''Language changed to: '' @ lang)]\<rparr>))))))"

definition body_ready :: "state \<Rightarrow> (exn + unit) \<times> state" where
  "body_ready st =
     (case with_body (classList_add ''i18n-ready'') (doc st) of
        Inl e \<Rightarrow> (Inl e, st)
      | Inr d \<Rightarrow> (Inr (), st\<lparr>doc := d\<rparr>))"

definition init :: "host \<Rightarrow> network \<Rightarrow> environment \<Rightarrow> state \<Rightarrow> (exn + unit) \<times> state" where
  "init h net env st =
     (if isInitialized st then (Inr (), st)
      else
        (case resolveLanguage env st of
           (code, st1) \<Rightarrow>
             and_then (loadTranslations net code (st1\<lparr>currentLanguage := code\<rparr>))
               (\<lambda>st2. and_then (applyTranslations h st2)
               (\<lambda>st3. and_then (updateDocumentAttributes st3)
               (\<lambda>st4. and_then (setupLanguageSelector st4)
               (\<lambda>st5. and_then (body_ready (st5\<lparr>isInitialized := True\<rparr>))
               (\<lambda>st6. (Inr (),
                  st6\<lparr>dispatched := dispatched st6 @ [(''i18n:ready'', currentLanguage st6)],
                      console := console st6
                        @ [ConsoleLog (''i18n initialized with language: '' @ currentLanguage st6)]\<rparr>))))))))"

text \<open>The states the module can be in once \<open>init\<close> has been called on a freshly loaded page,
  after any further calls of \<open>setLanguage\<close> and \<open>init\<close>, each run to its end.\<close>

inductive reachable :: "host \<Rightarrow> network \<Rightarrow> state \<Rightarrow> bool" for h :: host and net :: network where
  first_init: "reachable h net (snd (init h net env (initial_state sto d)))"
| after_setLanguage: "reachable h net st \<Longrightarrow> reachable h net (snd (setLanguage h net lang st))"
| after_init: "reachable h net st \<Longrightarrow> reachable h net (snd (init h net env st))"

subsection \<open>What the properties observe\<close>










subsection \<open>Notions for the properties of rendering\<close>











subsection \<open>Inputs for the examples\<close>

text \<open>
  A host, a page and a network on which the theorems below are run.  The host answers as a
  browser does on what the examples ask of it: plain objects, arrays and functions inherit
  the methods of \<open>Object.prototype\<close>; an attribute name is stored in lower case and is refused
  when it is empty or contains white space; the parser is given for the one piece of markup
  the examples use.
\<close>

definition object_prototype :: "(string \<times> jsval) list" where
  "object_prototype =
     map (\<lambda>name. (name, JFun name))
       [''constructor'', ''hasOwnProperty'', ''isPrototypeOf'', ''propertyIsEnumerable'',
        ''toLocaleString'', ''toString'', ''valueOf'']"

definition ascii_lower :: "char \<Rightarrow> char" where
  "ascii_lower c =
     (if 65 \<le> (of_char c :: nat) \<and> (of_char c :: nat) \<le> 90
      then char_of ((of_char c :: nat) + 32) else c)"

definition example_host :: host where
  "example_host =
     \<lparr>inherited = (\<lambda>v key. if is_object v then map_of object_prototype key else None),
      parseFragment = (\<lambda>tag markup.
         if markup = ''<b>Zodya</b>'' then [Elem ''b'' [] [Text ''Zodya'']] else []),
      attributeName = (\<lambda>name.
         if name = [] \<or> list_ex ascii_space name then None else Some (map ascii_lower name)),
      toDOMString = (\<lambda>v.
         case v of
           JStr s \<Rightarrow> Inr s
         | JBool b \<Rightarrow> Inr (if b then ''true'' else ''false'')
         | JNull \<Rightarrow> Inr ''null''
         | JUndefined \<Rightarrow> Inr ''undefined''
         | JObj ps \<Rightarrow> Inr ''[object Object]''
         | _ \<Rightarrow> Inl TypeError)\<rparr>"

definition example_environment :: environment where
  "example_environment =
     \<lparr>query = [(''lang'', ''fr'')],
      navigatorLanguage = Some ''en-US'',
      navigatorUserLanguage = None,
      navigatorLanguages = Some [''en-US'', ''AR-sa'']\<rparr>"

definition example_storage :: storage where
  "example_storage =
     \<lparr>readable = True, writable = True, items = [(''zodya-language'', ''ar'')]\<rparr>"

definition disabled_storage :: storage where
  "disabled_storage = \<lparr>readable = False, writable = False, items = []\<rparr>"

definition example_document :: document where
  "example_document =
     \<lparr>documentElement =
        Elem ''html'' []
          [Elem ''head'' []
             [Elem ''meta'' [(''name'', ''description''), (''content'', ''Tarot'')] []],
           Elem ''body'' [(''class'', ''dark'')]
             [Elem ''h1'' [(''data-i18n'', ''hero.title'')] [Text ''Welcome''],
              Elem ''input'' [(''data-i18n-attr'', ''placeholder:form.email, title:form.hint'')] [],
              Elem ''div'' [(''id'', ''language-selector'')]
                [Elem ''button'' [(''data-lang'', ''en'')] [Text ''EN''],
                 Elem ''button'' [(''data-lang'', ''ar'')] [Text ''AR'']]]],
      title = ''Zodya''\<rparr>"

definition english :: jsval where
  "english =
     JObj [(''meta'', JObj [(''title'', JStr ''Zodya Tarot''), (''description'', JStr ''Readings'')]),
           (''hero'', JObj [(''title'', JStr ''<b>Zodya</b>'')]),
           (''form'', JObj [(''email'', JStr ''Your email'')])]"

definition arabic :: jsval where
  "arabic =
     JObj [(''meta'', JObj [(''title'', JStr ''Zodya AR'')]),
           (''hero'', JObj [(''title'', JStr ''Marhaban'')])]"

definition example_network :: network where
  "example_network url =
     (if url = ''./locales/en.json'' then Response True (Some english)
      else if url = ''./locales/ar.json'' then Response True (Some arabic)
      else Response False None)"

text \<open>A network on which nothing can be fetched, and one that serves the Arabic file
  only.\<close>

definition offline :: network where
  "offline url = Rejected"





section \<open>Properties\<close>

subsection \<open>The key lookup\<close>


lemma t_loop_addressed:
  "t_loop h v ks = Inr (case addressed h v ks of None \<Rightarrow> Missing | Some x \<Rightarrow> Found x)"
proof (induction ks arbitrary: v)
  case Nil
  show ?case by simp
next
  case (Cons k ks)
  show ?case
    by (cases v)
      (simp_all add: Cons js_in_def js_get_def keyed_container_def has_segment_def
        segment_value_def)
qed

lemma t_addressed:
  "t h T p = Inr (case addressed h T (js_split CHR ''.'' p) of None \<Rightarrow> JStr p | Some x \<Rightarrow> x)"
  by (simp add: t_def t_loop_addressed split: option.split)

lemma t_returns: "\<exists>v. t h T p = Inr v"
  by (simp add: t_addressed)





text \<open>The segment test of the code is \<open>key in value\<close>, which also finds inherited
  properties: on the empty object the path \<open>toString\<close> gives the method of
  \<open>Object.prototype\<close>, not the path.\<close>

lemma lookup_inherited:
  "t example_host (JObj []) ''toString'' = Inr (JFun ''toString'')"
  by (simp add: t_addressed js_split_def keyed_container_def has_segment_def segment_value_def
      example_host_def object_prototype_def)



text \<open>
  C10.  \<open>t\<close> is total: for every path (the empty one and those with empty segments
  included) and every dataset, of any shape, it throws nothing and returns the value the
  path addresses or the path itself.
\<close>

theorem t_total:
  "\<exists>v. t h T keyPath = Inr v
       \<and> (v = JStr keyPath \<or> addressed h T (js_split CHR ''.'' keyPath) = Some v)"
  by (cases "addressed h T (js_split CHR ''.'' keyPath)") (simp_all add: t_addressed)

theorem t_total_witness:
  "\<exists>v. t example_host (JArr [JNull, JNum 3]) ''0..x'' = Inr v
       \<and> (v = JStr ''0..x''
            \<or> addressed example_host (JArr [JNull, JNum 3]) (js_split CHR ''.'' ''0..x'') = Some v)"
  by (rule t_total)


subsection \<open>Language resolution\<close>

lemma find_app:
  "find P (xs @ ys) = (case find P xs of Some x \<Rightarrow> Some x | None \<Rightarrow> find P ys)"
  by (induction xs) auto

lemma first_supported_subtag_find:
  "first_supported_subtag langs = find supported (map subtag langs)"
  by (induction langs) (auto simp: supported_def)

lemma empty_unsupported: "[] \<notin> set supportedLanguages"
  by (simp add: supportedLanguages_def)

lemma unsupported_nil: "\<not> supported []"
  by (simp add: supported_def supportedLanguages_def)

lemma subtag_nil: "subtag [] = []"
  by (simp add: subtag_def toLowerCase_def js_split_def)

lemma getUrlLanguage_find:
  "getUrlLanguage env =
     find supported (case map_of (query env) ''lang'' of None \<Rightarrow> [] | Some lang \<Rightarrow> [lang])"
  using empty_unsupported
  by (auto simp: getUrlLanguage_def supported_def split: option.splits)

lemma getStoredLanguage_find:
  "fst (getStoredLanguage st) =
     find supported
       (if readable (storage st)
        then (case map_of (items (storage st)) localStorageKey of
                None \<Rightarrow> [] | Some stored \<Rightarrow> [stored])
        else [])"
  using empty_unsupported
  by (auto simp: getStoredLanguage_def getItem_def supported_def split: option.splits)

lemma detectBrowserLanguage_find:
  "detectBrowserLanguage env =
     find supported
       ((case js_or (navigatorLanguage env) (navigatorUserLanguage env) of
           None \<Rightarrow> [] | Some b \<Rightarrow> [subtag b])
        @ (case navigatorLanguages env of None \<Rightarrow> [] | Some langs \<Rightarrow> map subtag langs))"
proof (cases "js_or (navigatorLanguage env) (navigatorUserLanguage env)")
  case None
  then show ?thesis
    by (simp add: detectBrowserLanguage_def first_supported_subtag_find split: option.splits)
next
  case (Some b)
  show ?thesis
  proof (cases "b = []")
    case True
    then show ?thesis using Some
      by (simp add: detectBrowserLanguage_def first_supported_subtag_find subtag_nil
          unsupported_nil split: option.splits)
  next
    case False
    then show ?thesis using Some
      by (simp add: detectBrowserLanguage_def first_supported_subtag_find supported_def
          split: option.splits)
  qed
qed

lemma find_supported_nonempty: "find supported xs = Some c \<Longrightarrow> c \<noteq> [] \<and> supported c"
  using unsupported_nil by (auto simp: find_Some_iff)

lemma js_or_find: "js_or (find supported xs) None = find supported xs"
  by (cases "find supported xs") (auto simp: js_or_def dest: find_supported_nonempty)

lemma resolveLanguage_sources:
  "fst (resolveLanguage env st) =
     (case getUrlLanguage env of
        Some c \<Rightarrow> c
      | None \<Rightarrow>
          (case fst (getStoredLanguage st) of
             Some c \<Rightarrow> c
           | None \<Rightarrow>
               (case detectBrowserLanguage env of Some c \<Rightarrow> c | None \<Rightarrow> defaultLanguage)))"
proof -
  have 1: "js_or (getUrlLanguage env) None = getUrlLanguage env"
    unfolding getUrlLanguage_find by (rule js_or_find)
  have 2: "js_or (fst (getStoredLanguage st)) None = fst (getStoredLanguage st)"
    unfolding getStoredLanguage_find by (rule js_or_find)
  have 3: "js_or (detectBrowserLanguage env) None = detectBrowserLanguage env"
    unfolding detectBrowserLanguage_find by (rule js_or_find)
  obtain stored st1 where g: "getStoredLanguage st = (stored, st1)"
    by (cases "getStoredLanguage st")
  show ?thesis
    using 1 2 3 unfolding resolveLanguage_def g
    by (simp split: option.splits)
qed

lemma resolveLanguage_find:
  "fst (resolveLanguage env st) =
     (case find supported (offered env (storage st)) of
        Some code \<Rightarrow> code
      | None \<Rightarrow> defaultLanguage)"
  unfolding resolveLanguage_sources offered_def
  by (simp add: getUrlLanguage_find getStoredLanguage_find detectBrowserLanguage_find find_app
      split: option.splits)

lemma default_supported: "supported defaultLanguage"
  by (simp add: supported_def defaultLanguage_def supportedLanguages_def)

lemma resolveLanguage_supported: "supported (fst (resolveLanguage env st))"
  unfolding resolveLanguage_find
  by (auto split: option.splits simp: default_supported dest: find_supported_nonempty)

lemma getStoredLanguage_unreadable:
  "\<not> readable (storage st) \<Longrightarrow>
     getStoredLanguage st =
       (None, st\<lparr>console := console st @ [ConsoleWarn ''localStorage not available:'']\<rparr>)"
  by (simp add: getStoredLanguage_def getItem_def)


text \<open>
  C1.  Resolution returns one code, chosen by strict priority: the first supported code
  among those offered by the query parameter, the stored preference, the language subtag
  of the primary locale and the subtags of the ordered preference list, in this order, and
  the default when none of them is supported.  An unsupported code is passed over: the
  result is always a supported code.
\<close>

theorem resolution_priority:
  "fst (resolveLanguage env st) =
     (case find supported (offered env (storage st)) of
        Some code \<Rightarrow> code
      | None \<Rightarrow> defaultLanguage)
   \<and> supported (fst (resolveLanguage env st))"
  by (simp add: resolveLanguage_find[symmetric] resolveLanguage_supported)

theorem resolution_priority_witness:
  "offered example_environment example_storage = [''fr'', ''ar'', ''en'', ''en'', ''ar'']
   \<and> fst (resolveLanguage example_environment (initial_state example_storage example_document))
       = ''ar''"
proof -
  have o: "offered example_environment example_storage = [''fr'', ''ar'', ''en'', ''en'', ''ar'']"
    by code_simp
  have "storage (initial_state example_storage example_document) = example_storage"
    by (simp add: initial_state_def)
  then show ?thesis
    using resolution_priority
      [of example_environment "initial_state example_storage example_document"] o
    by (simp add: supported_def supportedLanguages_def)
qed

text \<open>
  C4.  Resolution never fails.  It always yields a supported code; a storage that throws
  is treated as one that holds nothing (the stored source gives no result, and the code
  resolved is the one resolved with an empty storage); and when no source gives a result
  the code is the default.
\<close>

theorem resolution_never_fails:
  "supported (fst (resolveLanguage env st))
   \<and> (\<not> readable (storage st) \<longrightarrow>
        fst (getStoredLanguage st) = None
        \<and> fst (resolveLanguage env st) =
            fst (resolveLanguage env
                   (st\<lparr>storage := \<lparr>readable = True, writable = False, items = []\<rparr>\<rparr>)))
   \<and> (getUrlLanguage env = None \<and> fst (getStoredLanguage st) = None
        \<and> detectBrowserLanguage env = None
        \<longrightarrow> fst (resolveLanguage env st) = defaultLanguage)"
proof (intro conjI impI)
  show "supported (fst (resolveLanguage env st))"
    by (rule resolveLanguage_supported)
next
  assume "\<not> readable (storage st)"
  then show "fst (getStoredLanguage st) = None"
    by (simp add: getStoredLanguage_unreadable)
next
  assume "\<not> readable (storage st)"
  then show "fst (resolveLanguage env st) =
      fst (resolveLanguage env (st\<lparr>storage := \<lparr>readable = True, writable = False, items = []\<rparr>\<rparr>))"
    by (simp add: resolveLanguage_find offered_def)
next
  assume "getUrlLanguage env = None \<and> fst (getStoredLanguage st) = None
    \<and> detectBrowserLanguage env = None"
  then show "fst (resolveLanguage env st) = defaultLanguage"
    by (simp add: resolveLanguage_sources)
qed

theorem resolution_never_fails_witness:
  "fst (getStoredLanguage (initial_state disabled_storage example_document)) = None
   \<and> fst (resolveLanguage \<lparr>query = [], navigatorLanguage = None, navigatorUserLanguage = None,
                            navigatorLanguages = None\<rparr>
            (initial_state disabled_storage example_document)) = ''en''"
proof -
  let ?env = "\<lparr>query = [], navigatorLanguage = None, navigatorUserLanguage = None,
                navigatorLanguages = None\<rparr>"
  let ?st = "initial_state disabled_storage example_document"
  have r: "\<not> readable (storage ?st)"
    by (simp add: initial_state_def disabled_storage_def)
  have u: "getUrlLanguage ?env = None"
    by (simp add: getUrlLanguage_def)
  have b: "detectBrowserLanguage ?env = None"
    by (simp add: detectBrowserLanguage_def js_or_def)
  have "fst (getStoredLanguage ?st) = None \<and> fst (resolveLanguage ?env ?st) = defaultLanguage"
    using resolution_never_fails [of ?env ?st] r u b by blast
  then show ?thesis
    unfolding defaultLanguage_def .
qed


subsection \<open>Loading a dataset\<close>

lemma try_load_fails:
  "fetch_fails net lang \<Longrightarrow>
     \<exists>e. try_load net lang st =
       (Inl e, st\<lparr>requests := requests st @ [translations_url lang]\<rparr>)"
  by (auto simp: fetch_fails_def try_load_def Let_def split: response.splits option.splits)

lemma try_load_succeeds:
  "\<not> fetch_fails net lang \<Longrightarrow>
     \<exists>v. net (translations_url lang) = Response True (Some v) \<and>
       try_load net lang st =
         (Inr (), st\<lparr>requests := requests st @ [translations_url lang], translations' := v\<rparr>)"
  by (auto simp: fetch_fails_def try_load_def Let_def split: response.splits option.splits)

lemma loadTranslations_default:
  "loadTranslations net defaultLanguage st =
     (case try_load net defaultLanguage st of
        (Inr u, st1) \<Rightarrow> (Inr (), st1)
      | (Inl error, st1) \<Rightarrow>
          (Inr (), st1\<lparr>console := console st1 @ [ConsoleError ''Failed to load translations:'']\<rparr>))"
  by (subst loadTranslations.simps) (simp add: Let_def split: prod.splits sum.splits)

lemma loadTranslations_returns: "fst (loadTranslations net lang st) = Inr ()"
proof (cases "lang = defaultLanguage")
  case True
  then show ?thesis
    by (simp add: loadTranslations_default split: prod.splits sum.splits)
next
  case False
  then show ?thesis
    by (subst loadTranslations.simps)
      (simp add: Let_def loadTranslations_default split: prod.splits sum.splits)
qed

lemma loadTranslations_fallback:
  assumes "fetch_fails net lang" and "lang \<noteq> defaultLanguage"
  shows "loadTranslations net lang st =
     loadTranslations net defaultLanguage
       (st\<lparr>requests := requests st @ [translations_url lang],
           console := console st @ [ConsoleError ''Failed to load translations:'']\<rparr>)"
proof -
  obtain e where
    "try_load net lang st = (Inl e, st\<lparr>requests := requests st @ [translations_url lang]\<rparr>)"
    using try_load_fails[OF assms(1)] by blast
  then show ?thesis
    using assms(2) by (subst loadTranslations.simps) (simp add: Let_def)
qed

lemma loadTranslations_default_fails:
  assumes "fetch_fails net defaultLanguage"
  shows "loadTranslations net defaultLanguage st =
     (Inr (), st\<lparr>requests := requests st @ [translations_url defaultLanguage],
                 console := console st @ [ConsoleError ''Failed to load translations:'']\<rparr>)"
proof -
  obtain e where
    "try_load net defaultLanguage st =
       (Inl e, st\<lparr>requests := requests st @ [translations_url defaultLanguage]\<rparr>)"
    using try_load_fails[OF assms(1)] by blast
  then show ?thesis
    by (simp add: loadTranslations_default)
qed

lemma loadTranslations_succeeds:
  assumes "\<not> fetch_fails net lang"
  shows "\<exists>v. net (translations_url lang) = Response True (Some v) \<and>
     loadTranslations net lang st =
       (Inr (), st\<lparr>requests := requests st @ [translations_url lang], translations' := v\<rparr>)"
proof -
  obtain v where "net (translations_url lang) = Response True (Some v)"
    and "try_load net lang st =
      (Inr (), st\<lparr>requests := requests st @ [translations_url lang], translations' := v\<rparr>)"
    using try_load_succeeds[OF assms] by blast
  then show ?thesis
    by (subst loadTranslations.simps) simp
qed

lemma loadTranslations_default_requests:
  "requests (snd (loadTranslations net defaultLanguage st)) =
     requests st @ [translations_url defaultLanguage]"
  by (cases "fetch_fails net defaultLanguage")
    (use loadTranslations_default_fails[of net st]
         loadTranslations_succeeds[of net defaultLanguage st] in auto)

text \<open>
  C3.  For every requested code: loading throws nothing to its caller; when the fetch for
  the code fails and the code is not the default, the default is fetched, exactly once
  (the requests made are those two, in this order); and when that fetch fails too, the
  dataset in memory is the one that was there before.
\<close>

theorem load_falls_back_once:
  "fst (loadTranslations net lang st) = Inr ()
   \<and> (fetch_fails net lang \<and> lang \<noteq> defaultLanguage \<longrightarrow>
        requests (snd (loadTranslations net lang st)) =
          requests st @ [translations_url lang, translations_url defaultLanguage]
        \<and> (fetch_fails net defaultLanguage \<longrightarrow>
             translations' (snd (loadTranslations net lang st)) = translations' st))"
  by (simp add: loadTranslations_returns loadTranslations_fallback
      loadTranslations_default_requests loadTranslations_default_fails)

theorem load_falls_back_once_witness:
  "fst (loadTranslations offline ''ar'' (initial_state example_storage example_document)) = Inr ()
   \<and> requests (snd (loadTranslations offline ''ar''
                      (initial_state example_storage example_document)))
       = [''./locales/ar.json'', ''./locales/en.json'']
   \<and> translations' (snd (loadTranslations offline ''ar''
                           (initial_state example_storage example_document)))
       = JObj []"
proof -
  have f: "fetch_fails offline ''ar''" "fetch_fails offline defaultLanguage"
    by (simp_all add: fetch_fails_def offline_def)
  have n: "''ar'' \<noteq> defaultLanguage"
    by (simp add: defaultLanguage_def)
  show ?thesis
    using load_falls_back_once
      [of offline "''ar''" "initial_state example_storage example_document"] f n
    by (simp add: initial_state_def translations_url_def defaultLanguage_def)
qed


subsection \<open>Switching to an unsupported or to the active code\<close>

text \<open>
  C5.  \<open>setLanguage\<close> with an unsupported code changes nothing but the console, where it
  reports the error: the active code, the dataset and the rest of the state are as before,
  no request is made, nothing is stored and no event is dispatched.
\<close>

theorem setLanguage_unsupported:
  "lang \<notin> set supportedLanguages \<Longrightarrow>
     setLanguage h net lang st =
       (Inr (), st\<lparr>console := console st @ [ConsoleError (''Unsupported language: '' @ lang)]\<rparr>)"
  by (simp add: setLanguage_def)

theorem setLanguage_unsupported_witness:
  "setLanguage example_host example_network ''fr'' (initial_state example_storage example_document)
     = (Inr (), (initial_state example_storage example_document)
                  \<lparr>console := [ConsoleError ''Unsupported language: fr'']\<rparr>)"
proof -
  have "''fr'' \<notin> set supportedLanguages"
    by (simp add: supportedLanguages_def)
  then show ?thesis
    using setLanguage_unsupported
      [of "''fr''" example_host example_network "initial_state example_storage example_document"]
    by (simp add: initial_state_def)
qed

text \<open>
  C6.  \<open>setLanguage\<close> with the code that is already active is a silent no-op: the state is
  exactly the one before the call, so no request is made, nothing is stored, nothing is
  written to the console and no event is dispatched.  (The active code is a supported one
  in every state the module reaches.)
\<close>

theorem setLanguage_same:
  "currentLanguage st \<in> set supportedLanguages \<Longrightarrow>
     setLanguage h net (currentLanguage st) st = (Inr (), st)"
  by (simp add: setLanguage_def)

theorem setLanguage_same_witness:
  "setLanguage example_host example_network ''en'' (initial_state example_storage example_document)
     = (Inr (), initial_state example_storage example_document)"
proof -
  have "currentLanguage (initial_state example_storage example_document) = ''en''"
    by (simp add: initial_state_def defaultLanguage_def)
  moreover have "''en'' \<in> set supportedLanguages"
    by (simp add: supportedLanguages_def)
  ultimately show ?thesis
    using setLanguage_same
      [of "initial_state example_storage example_document" example_host example_network]
    by simp
qed


subsection \<open>The module variables through \<open>init\<close> and \<open>setLanguage\<close>\<close>












lemma supported_member: "supported c = (c \<in> set supportedLanguages)"
  by (simp add: supported_def)











subsection \<open>Direction and language attributes\<close>
























subsection \<open>Rendering\<close>








































end
